theory Spec2Isabelle
  imports Main "HOL-Library.Word" "HOL-Library.Code_Target_Numeral"
begin

section \<open>Data model of moneybag.h\<close>

text \<open>
  \<open>Moneybag::coin_number_t\<close> is \<open>uint64_t\<close>; \<open>Value\<close> stores a
  \<open>boost::multiprecision::uint128_t\<close>. Both are unsigned machine integers whose
  arithmetic wraps around, so they are words of 64 and 128 bits.
\<close>

type_synonym uint64_t = "64 word"
type_synonym coin_number_t = uint64_t
type_synonym uint128_t = "128 word"

text \<open>The class \<open>Moneybag\<close>: three private counters.\<close>

record Moneybag =
  livres :: coin_number_t
  soliduses :: coin_number_t
  deniers :: coin_number_t

text \<open>The constructor \<open>Moneybag(livres, soliduses, deniers)\<close> stores its arguments verbatim.\<close>

definition Moneybag :: "coin_number_t \<Rightarrow> coin_number_t \<Rightarrow> coin_number_t \<Rightarrow> Moneybag" where
  "Moneybag l s d = \<lparr>livres = l, soliduses = s, deniers = d\<rparr>"

definition livre_number :: "Moneybag \<Rightarrow> coin_number_t" where
  "livre_number this = livres this"

definition solidus_number :: "Moneybag \<Rightarrow> coin_number_t" where
  "solidus_number this = soliduses this"

definition denier_number :: "Moneybag \<Rightarrow> coin_number_t" where
  "denier_number this = deniers this"

text \<open>
  The local constant \<open>MAX\<close> of the operators, \<open>std::numeric_limits<coin_number_t>::max()\<close>,
  that is \<open>2^64 - 1\<close> (\<open>MAX\<close> alone is reserved syntax of HOL, hence the suffix).
\<close>

definition MAX_coin :: coin_number_t where
  "MAX_coin = 18446744073709551615"

text \<open>The only exception the header throws is \<open>std::out_of_range\<close>, with a message.\<close>

datatype error = Out_of_range string

section \<open>Member functions that mutate the object\<close>

text \<open>
  A compound assignment operator runs on the object \<open>*this\<close>. It is modelled as a
  function from the state of the object before the call to a pair: the outcome (the
  exception thrown, or the value returned) and the state the object is left in. The body
  is a sequence of statements; a \<open>throw\<close> ends it and leaves the object as the statements
  before it made it.

  The right operand is passed by reference. It may be the object itself (\<open>a += a\<close>), so
  every statement reads it through \<open>deref\<close> in the state reached so far.
\<close>

type_synonym 'a outcome = "(error + 'a) \<times> Moneybag"

datatype operand = This | Other Moneybag

fun deref :: "operand \<Rightarrow> Moneybag \<Rightarrow> Moneybag" where
  "deref This this = this"
| "deref (Other m) this = m"

definition throw :: "error \<Rightarrow> Moneybag \<Rightarrow> 'a outcome" where
  "throw e this = (Inl e, this)"

definition skip :: "Moneybag \<Rightarrow> unit outcome" where
  "skip this = (Inr (), this)"

definition return_this :: "Moneybag \<Rightarrow> Moneybag outcome" where
  "return_this this = (Inr this, this)"

definition assign :: "(Moneybag \<Rightarrow> Moneybag) \<Rightarrow> Moneybag \<Rightarrow> unit outcome" where
  "assign upd this = (Inr (), upd this)"

definition then_do :: "(Moneybag \<Rightarrow> unit outcome) \<Rightarrow> (Moneybag \<Rightarrow> 'a outcome) \<Rightarrow> Moneybag \<Rightarrow> 'a outcome" where
  "then_do stmt rest this =
     (case stmt this of
        (Inl e, this') \<Rightarrow> (Inl e, this')
      | (Inr _, this') \<Rightarrow> rest this')"

subsection \<open>Addition\<close>

definition operator_plus_assign :: "operand \<Rightarrow> Moneybag \<Rightarrow> Moneybag outcome" where
  "operator_plus_assign m =
     then_do (\<lambda>this.
        if livres (deref m this) > MAX_coin - livres this \<or>
           soliduses (deref m this) > MAX_coin - soliduses this \<or>
           deniers (deref m this) > MAX_coin - deniers this
        then throw (Out_of_range ''Out of range while adding another moneybag.'') this
        else skip this)
    (then_do (assign (\<lambda>this. this\<lparr>livres := livres this + livres (deref m this)\<rparr>))
    (then_do (assign (\<lambda>this. this\<lparr>soliduses := soliduses this + soliduses (deref m this)\<rparr>))
    (then_do (assign (\<lambda>this. this\<lparr>deniers := deniers this + deniers (deref m this)\<rparr>))
     return_this)))"

text \<open>
  \<open>operator+\<close> is \<open>return Moneybag(*this) += m;\<close>: the compound operator runs on a
  temporary copy of the left operand, which the right operand cannot alias, and the
  temporary is returned by value unless the call threw.
\<close>

definition operator_plus :: "Moneybag \<Rightarrow> Moneybag \<Rightarrow> error + Moneybag" where
  "operator_plus this m = fst (operator_plus_assign (Other m) this)"

subsection \<open>Subtraction\<close>

definition operator_minus_assign :: "operand \<Rightarrow> Moneybag \<Rightarrow> Moneybag outcome" where
  "operator_minus_assign m =
     then_do (\<lambda>this.
        if livres (deref m this) > livres this \<or>
           soliduses (deref m this) > soliduses this \<or>
           deniers (deref m this) > deniers this
        then throw (Out_of_range ''Out of range while substracting another moneybag.'') this
        else skip this)
    (then_do (assign (\<lambda>this. this\<lparr>livres := livres this - livres (deref m this)\<rparr>))
    (then_do (assign (\<lambda>this. this\<lparr>soliduses := soliduses this - soliduses (deref m this)\<rparr>))
    (then_do (assign (\<lambda>this. this\<lparr>deniers := deniers this - deniers (deref m this)\<rparr>))
     return_this)))"

text \<open>\<open>operator-\<close> is \<open>return Moneybag(*this) -= m;\<close>.\<close>

definition operator_minus :: "Moneybag \<Rightarrow> Moneybag \<Rightarrow> error + Moneybag" where
  "operator_minus this m = fst (operator_minus_assign (Other m) this)"

subsection \<open>Scalar multiplication\<close>

text \<open>
  The factor is passed by value. The range check is made only for a positive factor
  (the division \<open>MAX / times\<close> is then defined); the three products are computed in
  every case.
\<close>

definition operator_times_assign :: "uint64_t \<Rightarrow> Moneybag \<Rightarrow> Moneybag outcome" where
  "operator_times_assign times' =
     then_do (\<lambda>this.
        if times' > 0
        then (if livres this > MAX_coin div times' \<or>
                 soliduses this > MAX_coin div times' \<or>
                 deniers this > MAX_coin div times'
              then throw (Out_of_range ''Out of range while multiplying moneybag.'') this
              else skip this)
        else skip this)
    (then_do (assign (\<lambda>this. this\<lparr>livres := livres this * times'\<rparr>))
    (then_do (assign (\<lambda>this. this\<lparr>soliduses := soliduses this * times'\<rparr>))
    (then_do (assign (\<lambda>this. this\<lparr>deniers := deniers this * times'\<rparr>))
     return_this)))"

text \<open>
  \<open>m * times\<close> is \<open>return Moneybag(*this) *= times;\<close>, and the friend \<open>times * m\<close> is
  \<open>return m * times;\<close>.
\<close>

definition operator_times :: "Moneybag \<Rightarrow> uint64_t \<Rightarrow> error + Moneybag" where
  "operator_times this times' = fst (operator_times_assign times' this)"

definition operator_times_friend :: "uint64_t \<Rightarrow> Moneybag \<Rightarrow> error + Moneybag" where
  "operator_times_friend times' m = operator_times m times'"

subsection \<open>Truthiness and comparison\<close>

definition operator_bool :: "Moneybag \<Rightarrow> bool" where
  "operator_bool this \<longleftrightarrow> livres this > 0 \<or> soliduses this > 0 \<or> deniers this > 0"

text \<open>
  \<open>std::partial_ordering\<close> has four values and \<open>std::weak_ordering\<close> three;
  \<open>std::is_eq\<close> holds of \<open>equivalent\<close> only.
\<close>

datatype partial_ordering = PO_less | PO_equivalent | PO_greater | PO_unordered

datatype weak_ordering = WO_less | WO_equivalent | WO_greater

fun is_eq_partial :: "partial_ordering \<Rightarrow> bool" where
  "is_eq_partial PO_equivalent = True"
| "is_eq_partial _ = False"

fun is_eq_weak :: "weak_ordering \<Rightarrow> bool" where
  "is_eq_weak WO_equivalent = True"
| "is_eq_weak _ = False"

definition operator_spaceship :: "Moneybag \<Rightarrow> Moneybag \<Rightarrow> partial_ordering" where
  "operator_spaceship this m =
     (if livres this = livres m \<and> soliduses this = soliduses m \<and> deniers this = deniers m
      then PO_equivalent
      else if livres this \<ge> livres m \<and> soliduses this \<ge> soliduses m \<and> deniers this \<ge> deniers m
      then PO_greater
      else if livres this \<le> livres m \<and> soliduses this \<le> soliduses m \<and> deniers this \<le> deniers m
      then PO_less
      else PO_unordered)"

definition operator_eq :: "Moneybag \<Rightarrow> Moneybag \<Rightarrow> bool" where
  "operator_eq this m = is_eq_partial (operator_spaceship this m)"

subsection \<open>Rendering\<close>

text \<open>
  The digits of a natural number, most significant first, with no leading zero and no
  separator. \<open>uint128_t::str()\<close> gives the decimal ones; a stream gives those of its
  number base.
\<close>

definition digit :: "nat \<Rightarrow> char" where
  "digit d = ''0123456789'' ! d"

function decimal :: "nat \<Rightarrow> string" where
  "decimal n = (if n < 10 then [digit n] else decimal (n div 10) @ [digit (n mod 10)])"
  by pat_completeness auto
termination
  by (relation "measure (\<lambda>n. n)") auto

















section \<open>The class Value\<close>

record Value =
  value_in_denier :: uint128_t

text \<open>The three constructors: from a \<open>uint64_t\<close>, the default one, and from a Moneybag.\<close>

definition Value_of_uint64 :: "uint64_t \<Rightarrow> Value" where
  "Value_of_uint64 v = \<lparr>value_in_denier = ucast v\<rparr>"

definition Value_default :: Value where
  "Value_default = \<lparr>value_in_denier = 0\<rparr>"

definition Value_of_Moneybag :: "Moneybag \<Rightarrow> Value" where
  "Value_of_Moneybag m =
     \<lparr>value_in_denier = (ucast (livre_number m) :: uint128_t) * 240 +
                        (ucast (solidus_number m) :: uint128_t) * 12 +
                        (ucast (denier_number m) :: uint128_t)\<rparr>"

definition Value_to_string :: "Value \<Rightarrow> string" where
  "Value_to_string this = decimal (unat (value_in_denier this))"

definition Value_spaceship :: "Value \<Rightarrow> Value \<Rightarrow> weak_ordering" where
  "Value_spaceship this v =
     (if value_in_denier this > value_in_denier v then WO_greater
      else if value_in_denier this < value_in_denier v then WO_less
      else WO_equivalent)"

text \<open>
  The overload for a raw count compares the 128-bit number with the \<open>uint64_t\<close>
  directly. Boost's mixed comparison compares the two numbers by value, which is the
  comparison of what the two words denote.
\<close>

definition uint128_gt_uint64 :: "uint128_t \<Rightarrow> uint64_t \<Rightarrow> bool" where
  "uint128_gt_uint64 x v \<longleftrightarrow> unat x > unat v"

definition uint128_lt_uint64 :: "uint128_t \<Rightarrow> uint64_t \<Rightarrow> bool" where
  "uint128_lt_uint64 x v \<longleftrightarrow> unat x < unat v"

definition Value_spaceship_uint64 :: "Value \<Rightarrow> uint64_t \<Rightarrow> weak_ordering" where
  "Value_spaceship_uint64 this v =
     (if uint128_gt_uint64 (value_in_denier this) v then WO_greater
      else if uint128_lt_uint64 (value_in_denier this) v then WO_less
      else WO_equivalent)"

definition Value_eq :: "Value \<Rightarrow> Value \<Rightarrow> bool" where
  "Value_eq this v = is_eq_weak (Value_spaceship this v)"

definition Value_eq_uint64 :: "Value \<Rightarrow> uint64_t \<Rightarrow> bool" where
  "Value_eq_uint64 this v = is_eq_weak (Value_spaceship_uint64 this v)"

section \<open>The unit constants\<close>

definition Livre :: Moneybag where
  "Livre = Moneybag 1 0 0"

definition Solidus :: Moneybag where
  "Solidus = Moneybag 0 1 0"

definition Denier :: Moneybag where
  "Denier = Moneybag 0 0 1"

section \<open>Arithmetic on the counters\<close>

lemma unat_MAX: "unat MAX_coin = 18446744073709551615"
  by (simp add: MAX_coin_def)

lemma unat_le_MAX: "unat (x :: coin_number_t) \<le> 18446744073709551615"
  using unsigned_less [of x, where 'a = nat] by simp

lemma unat_MAX_minus: "unat (MAX_coin - x) = 18446744073709551615 - unat x"
proof -
  have "x \<le> MAX_coin"
    by (simp add: word_le_nat_alt unat_MAX unat_le_MAX)
  then show ?thesis
    by (simp add: unat_sub unat_MAX)
qed

text \<open>The check of \<open>+=\<close> passes exactly when the sum of the two counters is in range.\<close>

lemma fits_iff_sum: "y \<le> MAX_coin - x \<longleftrightarrow> unat x + unat y \<le> 18446744073709551615"
proof -
  have "unat x \<le> 18446744073709551615"
    by (rule unat_le_MAX)
  then show ?thesis
    unfolding word_le_nat_alt unat_MAX_minus by arith
qed

lemma unat_plus_exact:
  assumes "y \<le> MAX_coin - (x :: coin_number_t)"
  shows "unat (x + y) = unat x + unat y"
proof -
  from assms have "unat x + unat y < 2 ^ LENGTH(64)"
    by (simp add: fits_iff_sum)
  then show ?thesis
    by (simp only: unat_add_lem)
qed

lemma unat_minus_exact:
  assumes "y \<le> (x :: coin_number_t)"
  shows "unat (x - y) + unat y = unat x"
  using assms by (simp add: unat_sub word_le_nat_alt)

text \<open>
  The check of \<open>*=\<close>, made by dividing: a counter exceeds \<open>MAX / times\<close> exactly when
  its product with the factor exceeds \<open>MAX\<close>.
\<close>

lemma gt_div_iff:
  assumes "0 < (k :: coin_number_t)"
  shows "x > MAX_coin div k \<longleftrightarrow> unat x * unat k > 18446744073709551615"
proof -
  from assms have k: "0 < unat k"
    by (simp add: word_less_nat_alt)
  have "x > MAX_coin div k \<longleftrightarrow> 18446744073709551615 div unat k < unat x"
    by (simp add: word_less_nat_alt unat_div unat_MAX)
  also have "\<dots> \<longleftrightarrow> 18446744073709551615 < unat x * unat k"
    using k by (simp add: div_less_iff_less_mult)
  finally show ?thesis .
qed

lemma unat_times_exact:
  assumes "unat x * unat k \<le> 18446744073709551615"
  shows "unat (x * k) = unat x * unat (k :: coin_number_t)"
proof -
  from assms have "unat x * unat k < 2 ^ LENGTH(64)"
    by simp
  then show ?thesis
    by (simp only: unat_mult_lem)
qed

section \<open>Running the operators\<close>

lemma operator_plus_assign_Other:
  "operator_plus_assign (Other b) a =
     (if livres b \<le> MAX_coin - livres a \<and> soliduses b \<le> MAX_coin - soliduses a \<and>
         deniers b \<le> MAX_coin - deniers a
      then (Inr (Moneybag (livres a + livres b) (soliduses a + soliduses b) (deniers a + deniers b)),
            Moneybag (livres a + livres b) (soliduses a + soliduses b) (deniers a + deniers b))
      else (Inl (Out_of_range ''Out of range while adding another moneybag.''), a))"
  by (simp add: operator_plus_assign_def then_do_def throw_def skip_def assign_def
      return_this_def Moneybag_def not_le)

lemma operator_minus_assign_Other:
  "operator_minus_assign (Other b) a =
     (if livres b > livres a \<or> soliduses b > soliduses a \<or> deniers b > deniers a
      then (Inl (Out_of_range ''Out of range while substracting another moneybag.''), a)
      else (Inr (Moneybag (livres a - livres b) (soliduses a - soliduses b) (deniers a - deniers b)),
            Moneybag (livres a - livres b) (soliduses a - soliduses b) (deniers a - deniers b)))"
  by (simp add: operator_minus_assign_def then_do_def throw_def skip_def assign_def
      return_this_def Moneybag_def)

text \<open>
  When the right operand is the object itself, each statement still reads only the
  counter it is about to write, so the call does what it does on a copy.
\<close>

lemma operator_plus_assign_This:
  "operator_plus_assign This a = operator_plus_assign (Other a) a"
  by (simp add: operator_plus_assign_def then_do_def throw_def skip_def assign_def
      return_this_def)

lemma operator_minus_assign_This:
  "operator_minus_assign This a = operator_minus_assign (Other a) a"
  by (simp add: operator_minus_assign_def then_do_def throw_def skip_def assign_def
      return_this_def)

lemma operator_times_assign_run:
  "operator_times_assign k a =
     (if 0 < k \<and> (livres a > MAX_coin div k \<or> soliduses a > MAX_coin div k \<or>
                  deniers a > MAX_coin div k)
      then (Inl (Out_of_range ''Out of range while multiplying moneybag.''), a)
      else (Inr (Moneybag (livres a * k) (soliduses a * k) (deniers a * k)),
            Moneybag (livres a * k) (soliduses a * k) (deniers a * k)))"
  by (simp add: operator_times_assign_def then_do_def throw_def skip_def assign_def
      return_this_def Moneybag_def)

text \<open>The check of \<open>*=\<close> as a whole, for any factor, in terms of the exact products.\<close>

lemma times_check_iff:
  "0 < k \<and> (livres a > MAX_coin div k \<or> soliduses a > MAX_coin div k \<or> deniers a > MAX_coin div k)
   \<longleftrightarrow> unat (livres a) * unat k > 18446744073709551615 \<or>
       unat (soliduses a) * unat k > 18446744073709551615 \<or>
       unat (deniers a) * unat k > 18446744073709551615"
proof (cases "0 < k")
  case True
  then show ?thesis
    by (simp add: gt_div_iff)
next
  case False
  then have "unat k = 0"
    by (simp add: word_less_nat_alt)
  with False show ?thesis
    by simp
qed

section \<open>Arithmetic of the conversion\<close>

lemma unat_ucast_wide: "unat (ucast (x :: uint64_t) :: uint128_t) = unat x"
proof -
  have "unat x < 2 ^ LENGTH(128)"
    using unat_le_MAX [of x] by simp
  then show ?thesis
    by (simp add: unsigned_ucast_eq take_bit_nat_eq_self)
qed

lemma unat_weighted_sum:
  fixes l s d :: uint64_t
  shows "unat ((ucast l :: uint128_t) * 240 + (ucast s :: uint128_t) * 12 + (ucast d :: uint128_t)) =
         unat l * 240 + unat s * 12 + unat d"
proof -
  have b: "unat l \<le> 18446744073709551615" "unat s \<le> 18446744073709551615"
    "unat d \<le> 18446744073709551615"
    by (rule unat_le_MAX)+
  have "unat (ucast l :: uint128_t) * unat (240 :: uint128_t) < 2 ^ LENGTH(128)"
    using b(1) by (simp add: unat_ucast_wide)
  then have l: "unat ((ucast l :: uint128_t) * 240) = unat l * 240"
    by (simp only: unat_mult_lem) (simp add: unat_ucast_wide)
  have "unat (ucast s :: uint128_t) * unat (12 :: uint128_t) < 2 ^ LENGTH(128)"
    using b(2) by (simp add: unat_ucast_wide)
  then have s: "unat ((ucast s :: uint128_t) * 12) = unat s * 12"
    by (simp only: unat_mult_lem) (simp add: unat_ucast_wide)
  have "unat ((ucast l :: uint128_t) * 240) + unat ((ucast s :: uint128_t) * 12) < 2 ^ LENGTH(128)"
    using b(1,2) by (simp add: l s)
  then have ls: "unat ((ucast l :: uint128_t) * 240 + (ucast s :: uint128_t) * 12) =
      unat l * 240 + unat s * 12"
    by (simp only: unat_add_lem) (simp add: l s)
  have "unat ((ucast l :: uint128_t) * 240 + (ucast s :: uint128_t) * 12) +
      unat (ucast d :: uint128_t) < 2 ^ LENGTH(128)"
    using b by (simp add: ls unat_ucast_wide)
  then show ?thesis
    by (simp only: unat_add_lem) (simp add: ls unat_ucast_wide)
qed

lemma unat_Value_of_Moneybag:
  "unat (value_in_denier (Value_of_Moneybag m)) =
     unat (livres m) * 240 + unat (soliduses m) * 12 + unat (deniers m)"
  by (simp add: Value_of_Moneybag_def livre_number_def solidus_number_def denier_number_def
      unat_weighted_sum)

text \<open>A 128-bit word is determined by the natural number it denotes.\<close>

lemma word_of_unat_sum:
  fixes x y z :: uint128_t
  assumes "unat x = unat y + unat z"
  shows "x = y + z"
proof -
  have "x = of_nat (unat x)"
    by simp
  also have "\<dots> = of_nat (unat y) + of_nat (unat z)"
    by (simp only: assms of_nat_add)
  finally show ?thesis
    by simp
qed

lemma word_of_unat_prod:
  fixes x y :: uint128_t and k :: uint64_t
  assumes "unat x = unat k * unat y"
  shows "x = ucast k * y"
proof -
  have "x = of_nat (unat x)"
    by simp
  also have "\<dots> = of_nat (unat k) * of_nat (unat y)"
    by (simp only: assms of_nat_mult)
  finally show ?thesis
    by simp
qed

lemma plus_linear:
  assumes "operator_plus a b = Inr c"
  shows "unat (value_in_denier (Value_of_Moneybag c)) =
         unat (value_in_denier (Value_of_Moneybag a)) + unat (value_in_denier (Value_of_Moneybag b))"
proof -
  from assms have fits: "livres b \<le> MAX_coin - livres a" "soliduses b \<le> MAX_coin - soliduses a"
      "deniers b \<le> MAX_coin - deniers a"
    and c: "c = Moneybag (livres a + livres b) (soliduses a + soliduses b) (deniers a + deniers b)"
    by (simp_all add: operator_plus_def operator_plus_assign_Other split: if_splits)
  show ?thesis
    by (simp add: c unat_Value_of_Moneybag Moneybag_def unat_plus_exact fits algebra_simps)
qed

lemma times_linear:
  assumes "operator_times a k = Inr d"
  shows "unat (value_in_denier (Value_of_Moneybag d)) =
         unat k * unat (value_in_denier (Value_of_Moneybag a))"
proof -
  from assms have chk: "\<not> (0 < k \<and> (livres a > MAX_coin div k \<or> soliduses a > MAX_coin div k \<or>
                  deniers a > MAX_coin div k))"
    and d: "d = Moneybag (livres a * k) (soliduses a * k) (deniers a * k)"
    by (simp_all add: operator_times_def operator_times_assign_run split: if_splits)
  from chk have "unat (livres a) * unat k \<le> 18446744073709551615"
    "unat (soliduses a) * unat k \<le> 18446744073709551615"
    "unat (deniers a) * unat k \<le> 18446744073709551615"
    unfolding times_check_iff by simp_all
  then show ?thesis
    by (simp add: d unat_Value_of_Moneybag Moneybag_def unat_times_exact algebra_simps)
qed

section \<open>Writing to a stream in its plain state\<close>





section \<open>The claims\<close>

text \<open>
  C1. For all Moneybags \<open>a\<close> and \<open>b\<close>, \<open>a + b\<close> and \<open>a += b\<close> succeed exactly when, in
  each of the three components, \<open>b\<close>'s counter does not exceed \<open>MAX\<close> minus \<open>a\<close>'s
  counter. Then the result (and, for \<open>+=\<close>, the object afterwards) holds in every
  component the sum of the two counters as natural numbers, so nothing has wrapped.
  Otherwise \<open>std::out_of_range\<close> is thrown and no result is produced. Adding one denier
  to a bag whose denier counter is at the maximum is such a failure.
\<close>

theorem C1_addition:
  "(if livres b \<le> MAX_coin - livres a \<and> soliduses b \<le> MAX_coin - soliduses a \<and>
       deniers b \<le> MAX_coin - deniers a
    then operator_plus a b =
           Inr (Moneybag (livres a + livres b) (soliduses a + soliduses b) (deniers a + deniers b)) \<and>
         operator_plus_assign (Other b) a =
           (Inr (Moneybag (livres a + livres b) (soliduses a + soliduses b) (deniers a + deniers b)),
            Moneybag (livres a + livres b) (soliduses a + soliduses b) (deniers a + deniers b)) \<and>
         unat (livres a + livres b) = unat (livres a) + unat (livres b) \<and>
         unat (soliduses a + soliduses b) = unat (soliduses a) + unat (soliduses b) \<and>
         unat (deniers a + deniers b) = unat (deniers a) + unat (deniers b)
    else operator_plus a b = Inl (Out_of_range ''Out of range while adding another moneybag.'') \<and>
         fst (operator_plus_assign (Other b) a) =
           Inl (Out_of_range ''Out of range while adding another moneybag.'')) \<and>
   operator_plus_assign This a = operator_plus_assign (Other a) a \<and>
   operator_plus (Moneybag l s MAX_coin) Denier =
     Inl (Out_of_range ''Out of range while adding another moneybag.'')"
proof -
  have "\<not> 1 \<le> MAX_coin - MAX_coin"
    by simp
  then have "operator_plus (Moneybag l s MAX_coin) Denier =
      Inl (Out_of_range ''Out of range while adding another moneybag.'')"
    by (simp add: operator_plus_def operator_plus_assign_Other Denier_def Moneybag_def)
  then show ?thesis
    by (simp add: operator_plus_def operator_plus_assign_Other operator_plus_assign_This
        unat_plus_exact)
qed

theorem C1_addition_witness:
  "operator_plus (Moneybag 1 2 3) (Moneybag 4 5 6) = Inr (Moneybag 5 7 9) \<and>
   operator_plus (Moneybag 0 0 MAX_coin) (Moneybag 0 0 1) =
     Inl (Out_of_range ''Out of range while adding another moneybag.'')"
  using C1_addition [of "Moneybag 4 5 6" "Moneybag 1 2 3"]
    C1_addition [of "Moneybag 0 0 1" "Moneybag 0 0 MAX_coin"]
  by (simp add: Moneybag_def MAX_coin_def)

text \<open>
  C2. For all Moneybags \<open>a\<close> and \<open>b\<close>, \<open>a - b\<close> and \<open>a -= b\<close> throw
  \<open>std::out_of_range\<close> exactly when some counter of \<open>b\<close> exceeds the same counter of
  \<open>a\<close>, and then \<open>a\<close> is as it was: no counter has been subtracted. Otherwise the result
  holds the three differences, exact on the natural numbers. In particular
  \<open>Moneybag(0,0,0) - Moneybag(0,0,1)\<close> fails.
\<close>

theorem C2_subtraction:
  "(if livres b > livres a \<or> soliduses b > soliduses a \<or> deniers b > deniers a
    then operator_minus a b =
           Inl (Out_of_range ''Out of range while substracting another moneybag.'') \<and>
         operator_minus_assign (Other b) a =
           (Inl (Out_of_range ''Out of range while substracting another moneybag.''), a)
    else operator_minus a b =
           Inr (Moneybag (livres a - livres b) (soliduses a - soliduses b) (deniers a - deniers b)) \<and>
         operator_minus_assign (Other b) a =
           (Inr (Moneybag (livres a - livres b) (soliduses a - soliduses b) (deniers a - deniers b)),
            Moneybag (livres a - livres b) (soliduses a - soliduses b) (deniers a - deniers b)) \<and>
         unat (livres a - livres b) + unat (livres b) = unat (livres a) \<and>
         unat (soliduses a - soliduses b) + unat (soliduses b) = unat (soliduses a) \<and>
         unat (deniers a - deniers b) + unat (deniers b) = unat (deniers a)) \<and>
   operator_minus_assign This a = operator_minus_assign (Other a) a \<and>
   operator_minus (Moneybag 0 0 0) (Moneybag 0 0 1) =
     Inl (Out_of_range ''Out of range while substracting another moneybag.'')"
proof -
  have ex: "operator_minus (Moneybag 0 0 0) (Moneybag 0 0 1) =
      Inl (Out_of_range ''Out of range while substracting another moneybag.'')"
    by (simp add: operator_minus_def operator_minus_assign_Other Moneybag_def)
  show ?thesis
  proof (cases "livres b > livres a \<or> soliduses b > soliduses a \<or> deniers b > deniers a")
    case True
    with ex show ?thesis
      by (simp add: operator_minus_def operator_minus_assign_Other operator_minus_assign_This)
  next
    case False
    then have "livres b \<le> livres a" "soliduses b \<le> soliduses a" "deniers b \<le> deniers a"
      by (simp_all add: not_less)
    with False ex show ?thesis
      by (simp add: operator_minus_def operator_minus_assign_Other operator_minus_assign_This
          unat_minus_exact)
  qed
qed

theorem C2_subtraction_witness:
  "operator_minus (Moneybag 5 7 9) (Moneybag 4 5 6) = Inr (Moneybag 1 2 3) \<and>
   operator_minus_assign (Other (Moneybag 1 1 4)) (Moneybag 2 2 3) =
     (Inl (Out_of_range ''Out of range while substracting another moneybag.''), Moneybag 2 2 3)"
  using C2_subtraction [of "Moneybag 5 7 9" "Moneybag 4 5 6"]
    C2_subtraction [of "Moneybag 2 2 3" "Moneybag 1 1 4"]
  by (simp add: Moneybag_def)

text \<open>
  C3. \<open>a <=> b\<close> is \<open>equivalent\<close> exactly when the three counters are pairwise equal;
  \<open>greater\<close> exactly when every counter of \<open>a\<close> is at least that of \<open>b\<close> and not all are
  equal; \<open>less\<close> exactly when every counter of \<open>a\<close> is at most that of \<open>b\<close> and not all
  are equal; \<open>unordered\<close> in every other case, as for \<open>Moneybag(1,0,0)\<close> against
  \<open>Moneybag(0,1,0)\<close>. \<open>a == b\<close> holds exactly when the comparison is \<open>equivalent\<close>.
\<close>

theorem C3_comparison:
  "(operator_spaceship a b = PO_equivalent \<longleftrightarrow>
      livres a = livres b \<and> soliduses a = soliduses b \<and> deniers a = deniers b) \<and>
   (operator_spaceship a b = PO_greater \<longleftrightarrow>
      (livres a \<ge> livres b \<and> soliduses a \<ge> soliduses b \<and> deniers a \<ge> deniers b) \<and>
      \<not> (livres a = livres b \<and> soliduses a = soliduses b \<and> deniers a = deniers b)) \<and>
   (operator_spaceship a b = PO_less \<longleftrightarrow>
      (livres a \<le> livres b \<and> soliduses a \<le> soliduses b \<and> deniers a \<le> deniers b) \<and>
      \<not> (livres a = livres b \<and> soliduses a = soliduses b \<and> deniers a = deniers b)) \<and>
   (operator_spaceship a b = PO_unordered \<longleftrightarrow>
      \<not> (livres a \<ge> livres b \<and> soliduses a \<ge> soliduses b \<and> deniers a \<ge> deniers b) \<and>
      \<not> (livres a \<le> livres b \<and> soliduses a \<le> soliduses b \<and> deniers a \<le> deniers b)) \<and>
   operator_spaceship (Moneybag 1 0 0) (Moneybag 0 1 0) = PO_unordered \<and>
   (operator_eq a b \<longleftrightarrow> operator_spaceship a b = PO_equivalent)"
proof -
  have eq: "operator_eq a b \<longleftrightarrow> operator_spaceship a b = PO_equivalent"
    unfolding operator_eq_def by (cases "operator_spaceship a b") simp_all
  have ex: "operator_spaceship (Moneybag 1 0 0) (Moneybag 0 1 0) = PO_unordered"
    by (simp add: operator_spaceship_def Moneybag_def)
  have cmp: "(operator_spaceship a b = PO_equivalent \<longleftrightarrow>
      livres a = livres b \<and> soliduses a = soliduses b \<and> deniers a = deniers b) \<and>
   (operator_spaceship a b = PO_greater \<longleftrightarrow>
      (livres a \<ge> livres b \<and> soliduses a \<ge> soliduses b \<and> deniers a \<ge> deniers b) \<and>
      \<not> (livres a = livres b \<and> soliduses a = soliduses b \<and> deniers a = deniers b)) \<and>
   (operator_spaceship a b = PO_less \<longleftrightarrow>
      (livres a \<le> livres b \<and> soliduses a \<le> soliduses b \<and> deniers a \<le> deniers b) \<and>
      \<not> (livres a = livres b \<and> soliduses a = soliduses b \<and> deniers a = deniers b)) \<and>
   (operator_spaceship a b = PO_unordered \<longleftrightarrow>
      \<not> (livres a \<ge> livres b \<and> soliduses a \<ge> soliduses b \<and> deniers a \<ge> deniers b) \<and>
      \<not> (livres a \<le> livres b \<and> soliduses a \<le> soliduses b \<and> deniers a \<le> deniers b))"
    unfolding operator_spaceship_def by auto
  from cmp ex eq show ?thesis
    by blast
qed

theorem C3_comparison_witness:
  "operator_spaceship (Moneybag 2 1 0) (Moneybag 1 1 0) = PO_greater \<and>
   operator_spaceship (Moneybag 1 1 0) (Moneybag 2 1 0) = PO_less \<and>
   operator_spaceship (Moneybag 3 4 5) (Moneybag 3 4 5) = PO_equivalent \<and>
   operator_spaceship (Moneybag 2 0 0) (Moneybag 1 0 7) = PO_unordered \<and>
   operator_eq (Moneybag 3 4 5) (Moneybag 3 4 5) \<and>
   \<not> operator_eq (Moneybag 2 1 0) (Moneybag 1 1 0)"
  using C3_comparison [of "Moneybag 2 1 0" "Moneybag 1 1 0"]
    C3_comparison [of "Moneybag 1 1 0" "Moneybag 2 1 0"]
    C3_comparison [of "Moneybag 3 4 5" "Moneybag 3 4 5"]
    C3_comparison [of "Moneybag 2 0 0" "Moneybag 1 0 7"]
  by (simp add: Moneybag_def word_le_nat_alt)

text \<open>
  C4. For every Moneybag \<open>m\<close>, the number stored by \<open>Value(m)\<close> is exactly
  \<open>livres * 240 + soliduses * 12 + deniers\<close> as natural numbers: the 128-bit
  arithmetic of the conversion never wraps, also when all three counters are at the
  64-bit maximum. \<open>Value(Moneybag(1,0,0))\<close> is 240, \<open>Value(Moneybag(0,1,0))\<close> is 12,
  \<open>Value(Moneybag(0,0,1))\<close> is 1, \<open>Value(Moneybag(1,1,1))\<close> is 253, and the all-maximum
  Moneybag converts to \<open>max64 * 240 + max64 * 12 + max64\<close>, whose decimal string is
  \<open>4667026250648516558595\<close>.
\<close>

theorem C4_value_conversion_exact:
  "unat (value_in_denier (Value_of_Moneybag m)) =
     unat (livres m) * 240 + unat (soliduses m) * 12 + unat (deniers m) \<and>
   value_in_denier (Value_of_Moneybag (Moneybag 1 0 0)) = 240 \<and>
   value_in_denier (Value_of_Moneybag (Moneybag 0 1 0)) = 12 \<and>
   value_in_denier (Value_of_Moneybag (Moneybag 0 0 1)) = 1 \<and>
   value_in_denier (Value_of_Moneybag (Moneybag 1 1 1)) = 253 \<and>
   unat (value_in_denier (Value_of_Moneybag (Moneybag MAX_coin MAX_coin MAX_coin))) =
     18446744073709551615 * 240 + 18446744073709551615 * 12 + 18446744073709551615 \<and>
   Value_to_string (Value_of_Moneybag (Moneybag MAX_coin MAX_coin MAX_coin)) =
     ''4667026250648516558595''"
proof -
  have units: "value_in_denier (Value_of_Moneybag (Moneybag 1 0 0)) = 240"
    "value_in_denier (Value_of_Moneybag (Moneybag 0 1 0)) = 12"
    "value_in_denier (Value_of_Moneybag (Moneybag 0 0 1)) = 1"
    "value_in_denier (Value_of_Moneybag (Moneybag 1 1 1)) = 253"
    by (simp_all add: Value_of_Moneybag_def livre_number_def solidus_number_def
        denier_number_def Moneybag_def)
  have top: "unat (value_in_denier (Value_of_Moneybag (Moneybag MAX_coin MAX_coin MAX_coin))) =
      4667026250648516558595"
    by (simp add: unat_Value_of_Moneybag Moneybag_def MAX_coin_def)
  have str: "Value_to_string (Value_of_Moneybag (Moneybag MAX_coin MAX_coin MAX_coin)) =
      ''4667026250648516558595''"
    unfolding Value_to_string_def top by (simp add: digit_def)
  from units top str show ?thesis
    by (simp add: unat_Value_of_Moneybag)
qed

text \<open>
  C5. For each of \<open>+=\<close>, \<open>-=\<close> and \<open>*=\<close>, whatever the right operand (another
  Moneybag or the target itself): if the call throws, the target is left exactly as it
  was before the call.
\<close>

theorem C5_failed_update_leaves_target:
  "((\<exists>e. fst (operator_plus_assign m a) = Inl e) \<longrightarrow> snd (operator_plus_assign m a) = a) \<and>
   ((\<exists>e. fst (operator_minus_assign m a) = Inl e) \<longrightarrow> snd (operator_minus_assign m a) = a) \<and>
   ((\<exists>e. fst (operator_times_assign k a) = Inl e) \<longrightarrow> snd (operator_times_assign k a) = a)"
  by (cases m)
    (simp_all add: operator_plus_assign_This operator_minus_assign_This
      operator_plus_assign_Other operator_minus_assign_Other operator_times_assign_run)

theorem C5_failed_update_leaves_target_witness:
  "fst (operator_plus_assign (Other (Moneybag 0 0 1)) (Moneybag 5 6 MAX_coin)) =
     Inl (Out_of_range ''Out of range while adding another moneybag.'') \<and>
   snd (operator_plus_assign (Other (Moneybag 0 0 1)) (Moneybag 5 6 MAX_coin)) =
     Moneybag 5 6 MAX_coin \<and>
   fst (operator_minus_assign (Other (Moneybag 0 0 8)) (Moneybag 5 6 7)) =
     Inl (Out_of_range ''Out of range while substracting another moneybag.'') \<and>
   snd (operator_minus_assign (Other (Moneybag 0 0 8)) (Moneybag 5 6 7)) = Moneybag 5 6 7 \<and>
   fst (operator_times_assign 2 (Moneybag 0 9223372036854775808 1)) =
     Inl (Out_of_range ''Out of range while multiplying moneybag.'') \<and>
   snd (operator_times_assign 2 (Moneybag 0 9223372036854775808 1)) =
     Moneybag 0 9223372036854775808 1 \<and>
   snd (operator_plus_assign This (Moneybag 0 9223372036854775808 1)) =
     Moneybag 0 9223372036854775808 1"
  using C5_failed_update_leaves_target [of "Other (Moneybag 0 0 1)" "Moneybag 5 6 MAX_coin"]
    C5_failed_update_leaves_target [of "Other (Moneybag 0 0 8)" "Moneybag 5 6 7"]
    C5_failed_update_leaves_target [of _ "Moneybag 0 9223372036854775808 1" 2]
    C5_failed_update_leaves_target [of This "Moneybag 0 9223372036854775808 1"]
  by (simp add: operator_plus_assign_This operator_plus_assign_Other operator_minus_assign_Other
      operator_times_assign_run Moneybag_def MAX_coin_def)

text \<open>
  C6. For every Moneybag \<open>a\<close> and factor \<open>k\<close>, \<open>a * k\<close>, \<open>k * a\<close> and \<open>a *= k\<close> throw
  \<open>std::out_of_range\<close> exactly when the product of some counter with \<open>k\<close> exceeds the
  64-bit maximum, and otherwise give the Moneybag of the three products, exact on the
  natural numbers. \<open>k * a\<close> is \<open>a * k\<close>. The test the code makes, for positive \<open>k\<close>,
  is whether a counter exceeds \<open>MAX / k\<close>, and it says the same. With \<open>k = 0\<close> the
  result is always the all-zero Moneybag.
\<close>

theorem C6_scalar_multiplication:
  "(if unat (livres a) * unat k > 18446744073709551615 \<or>
       unat (soliduses a) * unat k > 18446744073709551615 \<or>
       unat (deniers a) * unat k > 18446744073709551615
    then operator_times a k = Inl (Out_of_range ''Out of range while multiplying moneybag.'') \<and>
         operator_times_assign k a =
           (Inl (Out_of_range ''Out of range while multiplying moneybag.''), a)
    else operator_times a k =
           Inr (Moneybag (livres a * k) (soliduses a * k) (deniers a * k)) \<and>
         operator_times_assign k a =
           (Inr (Moneybag (livres a * k) (soliduses a * k) (deniers a * k)),
            Moneybag (livres a * k) (soliduses a * k) (deniers a * k)) \<and>
         unat (livres a * k) = unat (livres a) * unat k \<and>
         unat (soliduses a * k) = unat (soliduses a) * unat k \<and>
         unat (deniers a * k) = unat (deniers a) * unat k) \<and>
   operator_times_friend k a = operator_times a k \<and>
   ((0 < k \<and> (livres a > MAX_coin div k \<or> soliduses a > MAX_coin div k \<or>
               deniers a > MAX_coin div k)) \<longleftrightarrow>
    (unat (livres a) * unat k > 18446744073709551615 \<or>
     unat (soliduses a) * unat k > 18446744073709551615 \<or>
     unat (deniers a) * unat k > 18446744073709551615)) \<and>
   operator_times a 0 = Inr (Moneybag 0 0 0)"
proof -
  have zero: "operator_times a 0 = Inr (Moneybag 0 0 0)"
    by (simp add: operator_times_def operator_times_assign_run)
  have run: "operator_times_assign k a =
     (if unat (livres a) * unat k > 18446744073709551615 \<or>
         unat (soliduses a) * unat k > 18446744073709551615 \<or>
         unat (deniers a) * unat k > 18446744073709551615
      then (Inl (Out_of_range ''Out of range while multiplying moneybag.''), a)
      else (Inr (Moneybag (livres a * k) (soliduses a * k) (deniers a * k)),
            Moneybag (livres a * k) (soliduses a * k) (deniers a * k)))"
    unfolding operator_times_assign_run times_check_iff ..
  show ?thesis
  proof (cases "unat (livres a) * unat k > 18446744073709551615 \<or>
       unat (soliduses a) * unat k > 18446744073709551615 \<or>
       unat (deniers a) * unat k > 18446744073709551615")
    case True
    with zero show ?thesis
      by (simp add: operator_times_friend_def operator_times_def run times_check_iff)
  next
    case False
    then have "unat (livres a) * unat k \<le> 18446744073709551615"
      "unat (soliduses a) * unat k \<le> 18446744073709551615"
      "unat (deniers a) * unat k \<le> 18446744073709551615"
      by simp_all
    with False zero show ?thesis
      by (simp add: operator_times_friend_def operator_times_def run times_check_iff
          unat_times_exact)
  qed
qed

theorem C6_scalar_multiplication_witness:
  "operator_times (Moneybag 1 2 3) 4 = Inr (Moneybag 4 8 12) \<and>
   operator_times_friend 4 (Moneybag 1 2 3) = Inr (Moneybag 4 8 12) \<and>
   operator_times (Moneybag 0 9223372036854775808 1) 2 =
     Inl (Out_of_range ''Out of range while multiplying moneybag.'') \<and>
   operator_times (Moneybag MAX_coin MAX_coin MAX_coin) 0 = Inr (Moneybag 0 0 0)"
  using C6_scalar_multiplication [of "Moneybag 1 2 3" 4]
    C6_scalar_multiplication [of "Moneybag 0 9223372036854775808 1" 2]
    C6_scalar_multiplication [of "Moneybag MAX_coin MAX_coin MAX_coin"]
  by (simp add: Moneybag_def)




text \<open>
  C8. The conversion is linear. When \<open>a + b\<close> succeeds with result \<open>c\<close>, the 128-bit
  number of \<open>Value(c)\<close> is the sum of those of \<open>Value(a)\<close> and \<open>Value(b)\<close>; when \<open>k * a\<close>
  succeeds with result \<open>d\<close>, the number of \<open>Value(d)\<close> is \<open>k\<close> times that of \<open>Value(a)\<close>.
  Both hold of the 128-bit words and of the natural numbers they denote, so no
  wrap-around is involved.
\<close>

theorem C8_value_linear:
  "(operator_plus a b = Inr c \<longrightarrow>
      value_in_denier (Value_of_Moneybag c) =
        value_in_denier (Value_of_Moneybag a) + value_in_denier (Value_of_Moneybag b) \<and>
      unat (value_in_denier (Value_of_Moneybag c)) =
        unat (value_in_denier (Value_of_Moneybag a)) + unat (value_in_denier (Value_of_Moneybag b))) \<and>
   (operator_times_friend k a = Inr d \<longrightarrow>
      value_in_denier (Value_of_Moneybag d) = ucast k * value_in_denier (Value_of_Moneybag a) \<and>
      unat (value_in_denier (Value_of_Moneybag d)) =
        unat k * unat (value_in_denier (Value_of_Moneybag a)))"
  using plus_linear [of a b c] times_linear [of a k d]
  by (simp add: operator_times_friend_def word_of_unat_sum word_of_unat_prod)

theorem C8_value_linear_witness:
  "operator_plus (Moneybag MAX_coin 0 0) (Moneybag 0 MAX_coin 1) = Inr (Moneybag MAX_coin MAX_coin 1) \<and>
   unat (value_in_denier (Value_of_Moneybag (Moneybag MAX_coin MAX_coin 1))) =
     unat (value_in_denier (Value_of_Moneybag (Moneybag MAX_coin 0 0))) +
     unat (value_in_denier (Value_of_Moneybag (Moneybag 0 MAX_coin 1))) \<and>
   operator_times_friend 3 (Moneybag 6148914691236517205 2 1) = Inr (Moneybag MAX_coin 6 3) \<and>
   unat (value_in_denier (Value_of_Moneybag (Moneybag MAX_coin 6 3))) =
     3 * unat (value_in_denier (Value_of_Moneybag (Moneybag 6148914691236517205 2 1)))"
proof -
  have p: "operator_plus (Moneybag MAX_coin 0 0) (Moneybag 0 MAX_coin 1) =
      Inr (Moneybag MAX_coin MAX_coin 1)"
    by (simp add: operator_plus_def operator_plus_assign_Other Moneybag_def MAX_coin_def)
  have t: "operator_times_friend 3 (Moneybag 6148914691236517205 2 1) = Inr (Moneybag MAX_coin 6 3)"
    by (simp add: operator_times_friend_def operator_times_def operator_times_assign_run
        Moneybag_def MAX_coin_def)
  from p have sum: "unat (value_in_denier (Value_of_Moneybag (Moneybag MAX_coin MAX_coin 1))) =
      unat (value_in_denier (Value_of_Moneybag (Moneybag MAX_coin 0 0))) +
      unat (value_in_denier (Value_of_Moneybag (Moneybag 0 MAX_coin 1)))"
    using C8_value_linear [of "Moneybag MAX_coin 0 0" "Moneybag 0 MAX_coin 1"
        "Moneybag MAX_coin MAX_coin 1"]
    by blast
  from t have prod: "unat (value_in_denier (Value_of_Moneybag (Moneybag MAX_coin 6 3))) =
      unat (3 :: uint64_t) * unat (value_in_denier (Value_of_Moneybag (Moneybag 6148914691236517205 2 1)))"
    using C8_value_linear [of "Moneybag 6148914691236517205 2 1" _ _ 3 "Moneybag MAX_coin 6 3"]
    by blast
  from p t sum prod show ?thesis
    by simp
qed

text \<open>
  C9, as the code has it. A Value is constructed directly from a raw count given as a
  \<open>uint64_t\<close>, so from a count between 0 and \<open>2^64 - 1\<close>; the count is stored unchanged
  in the 128-bit integer. Constructed with no arguments, the Value is zero.
\<close>

theorem C9_raw_count_construction:
  "value_in_denier (Value_of_uint64 v) = ucast v \<and>
   unat (value_in_denier (Value_of_uint64 v)) = unat v \<and>
   unat (value_in_denier (Value_of_uint64 v)) \<le> 18446744073709551615 \<and>
   value_in_denier Value_default = 0"
  by (simp add: Value_of_uint64_def Value_default_def unat_ucast_wide unat_le_MAX)

text \<open>
  No raw count beyond the 64-bit range reaches the constructor: its parameter is a
  \<open>uint64_t\<close>. The largest argument gives \<open>2^64 - 1\<close>, and the count \<open>2^64\<close>, converted to
  the parameter's type, gives the zero Value.
\<close>

theorem C9_raw_count_counterexample:
  "\<not> (\<exists>v. unat (value_in_denier (Value_of_uint64 v)) > 18446744073709551615) \<and>
   unat (value_in_denier (Value_of_uint64 MAX_coin)) = 18446744073709551615 \<and>
   unat (value_in_denier (Value_of_uint64 (word_of_nat 18446744073709551616))) = 0"
proof -
  have "unat (value_in_denier (Value_of_uint64 v)) \<le> 18446744073709551615" for v
    by (simp add: Value_of_uint64_def unat_ucast_wide unat_le_MAX)
  then have "\<not> (\<exists>v. unat (value_in_denier (Value_of_uint64 v)) > 18446744073709551615)"
    by (simp add: not_less)
  then show ?thesis
    by (simp add: Value_of_uint64_def unat_ucast_wide unat_MAX)
qed

text \<open>
  C10. Comparing a Value with a raw \<open>uint64_t\<close> count gives what comparing it with the
  Value constructed from that count gives: the same ordering from \<open><=>\<close>, and the same
  answer from \<open>==\<close>.
\<close>

theorem C10_raw_comparison_agrees:
  "Value_spaceship_uint64 w n = Value_spaceship w (Value_of_uint64 n) \<and>
   (Value_eq_uint64 w n \<longleftrightarrow> Value_eq w (Value_of_uint64 n))"
  by (simp add: Value_eq_uint64_def Value_eq_def Value_spaceship_uint64_def Value_spaceship_def
      Value_of_uint64_def uint128_gt_uint64_def uint128_lt_uint64_def word_less_nat_alt
      unat_ucast_wide)

end
